theory Spec2Isabelle
  imports Complex_Main
begin

section \<open>record\_timelapse: supervising one encoder process\<close>

text \<open>
  A shallow embedding of \<^verbatim>\<open>src/record_timelapse.py\<close>: the methods
  \<^verbatim>\<open>RecorderApp.start_recording\<close>, \<^verbatim>\<open>stop_recording\<close>,
  \<^verbatim>\<open>cancel_recording\<close> and the \<^verbatim>\<open>except\<close> block of
  \<^verbatim>\<open>__main__\<close>. The attributes of the app and the module global \<^verbatim>\<open>PID\<close>
  are the fields of one record; every call that leaves the program (spawning, signalling,
  sleeping, deleting) appends an event to a trace, and the set of files on disk is a field
  of the state. What the operating system and the Python library decide (the process id of
  the child, whether a signal call raises, the clock) is an argument of the operation.
\<close>

subsection \<open>Values\<close>

text \<open>The exception classes that can leave the modelled code.\<close>

datatype error =
  ZeroDivisionError | OverflowError | ValueError | OSError | AttributeError | IndexError

text \<open>
  \<^verbatim>\<open>record_fps\<close> and \<^verbatim>\<open>target_fps\<close> are Python numbers: an \<^verbatim>\<open>int\<close>
  (the class defaults 1 and 60) or a \<^verbatim>\<open>float\<close> (whatever \<^verbatim>\<open>input_update\<close>
  stored). A finite float is carried by the rational number it denotes.
\<close>

datatype number = PyInt int | PyFloat rat

fun value_of :: "number \<Rightarrow> rat" where
  "value_of (PyInt i) = of_int i"
| "value_of (PyFloat x) = x"

fun is_int :: "number \<Rightarrow> bool" where
  "is_int (PyInt i) = True"
| "is_int (PyFloat x) = False"

datatype signal = CTRL_BREAK_EVENT | SIGTERM

text \<open>
  The result of a call into the operating system that may raise: it returned, or it raised
  an exception of some class whose \<^verbatim>\<open>str()\<close> is the given text.
\<close>

datatype outcome = Returned | Raised error string

text \<open>The effects the program has on its surroundings, in the order they happen.\<close>

datatype event =
    Spawn "string list" int
  | SpawnFailed "string list"
  | Signal int signal outcome
  | Sleep nat
  | Recompose
  | Unlink string
  | Print string

text \<open>The \<^verbatim>\<open>Popen\<close> object: the program only ever uses its process id.\<close>

record popen =
  pid :: int

record datetime =
  year :: nat
  month :: nat
  day :: nat
  hour :: nat
  minute :: nat
  second :: nat

text \<open>
  What is fixed when the module is loaded, and the parts of the Python library the program
  calls whose results are not computed here: the size of the primary screen
  (\<^verbatim>\<open>GetSystemMetrics\<close>), \<^verbatim>\<open>repr\<close> of a float, a float division whose
  quotient is not exact (it rounds, overflows to infinity, and \<^verbatim>\<open>Fraction\<close> of
  an infinity raises), and the continued-fraction search of
  \<^verbatim>\<open>Fraction.limit_denominator\<close> for a denominator above one million.
\<close>

record platform =
  WINDOW_MAX_WIDTH :: int
  WINDOW_MAX_HEIGHT :: int
  float_repr :: "rat \<Rightarrow> string"
  inexact_truediv :: "number \<Rightarrow> number \<Rightarrow> error + rat"
  limit_denominator_search :: "rat \<Rightarrow> int \<times> int"

text \<open>
  The attributes of \<^verbatim>\<open>RecorderApp\<close> (\<^verbatim>\<open>cmd\<close> does not exist until
  \<^verbatim>\<open>start_recording\<close> assigns it), the module global \<^verbatim>\<open>PID\<close>, the files
  on disk and the trace of effects so far.
\<close>

record world =
  box :: "int \<times> int \<times> int \<times> int"
  hwid :: int
  process :: "popen option"
  started :: bool
  record_fps :: number
  target_fps :: number
  bitrate :: int
  cmd :: "string list option"
  PID :: int
  files :: "string set"
  trace :: "event list"

subsection \<open>Formatting\<close>

text \<open>\<^verbatim>\<open>str\<close> of an integer, as an f-string inserts it.\<close>

function str_nat :: "nat \<Rightarrow> string" where
  "str_nat n =
     (if n < 10 then [''0123456789'' ! n]
      else str_nat (n div 10) @ [''0123456789'' ! (n mod 10)])"
  by pat_completeness auto
termination
  by (relation "measure id") auto

declare str_nat.simps [simp del]

definition str_int :: "int \<Rightarrow> string" where
  "str_int i = (if i < 0 then CHR ''-'' # str_nat (nat (- i)) else str_nat (nat i))"

fun py_str :: "platform \<Rightarrow> number \<Rightarrow> string" where
  "py_str P (PyInt i) = str_int i"
| "py_str P (PyFloat x) = float_repr P x"

definition zero_pad :: "nat \<Rightarrow> string \<Rightarrow> string" where
  "zero_pad n s = replicate (n - length s) CHR ''0'' @ s"

text \<open>\<^verbatim>\<open>strftime('%Y.%m.%d_%H.%M.%S')\<close>.\<close>

definition strftime :: "datetime \<Rightarrow> string" where
  "strftime t =
     zero_pad 4 (str_nat (year t)) @ ''.'' @ zero_pad 2 (str_nat (month t)) @ ''.'' @
     zero_pad 2 (str_nat (day t)) @ ''_'' @ zero_pad 2 (str_nat (hour t)) @ ''.'' @
     zero_pad 2 (str_nat (minute t)) @ ''.'' @ zero_pad 2 (str_nat (second t))"

subsection \<open>Frame-rate arithmetic\<close>

text \<open>
  \<^verbatim>\<open>a / b\<close> followed by \<^verbatim>\<open>Fraction(...)\<close>. Division by zero raises. When both
  operands convert to a float without rounding and the quotient is itself a float, the
  division is exact and \<^verbatim>\<open>Fraction\<close> returns that quotient; every other case is
  left to the platform.
\<close>

fun exact_operand :: "number \<Rightarrow> bool" where
  "exact_operand (PyInt i) = (\<bar>i\<bar> \<le> 2 ^ 53)"
| "exact_operand (PyFloat x) = True"

definition exactly_representable :: "rat \<Rightarrow> bool" where
  "exactly_representable q =
     (case quotient_of q of (n, d) \<Rightarrow> \<bar>n\<bar> < 2 ^ 53 \<and> d dvd 2 ^ 1074)"

definition truediv :: "platform \<Rightarrow> number \<Rightarrow> number \<Rightarrow> error + rat" where
  "truediv P a b =
     (if value_of b = 0 then Inl ZeroDivisionError
      else if exact_operand a \<and> exact_operand b
              \<and> exactly_representable (value_of a / value_of b)
      then Inr (value_of a / value_of b)
      else inexact_truediv P a b)"

text \<open>
  \<^verbatim>\<open>Fraction.limit_denominator()\<close> with its default bound: a fraction whose
  denominator is at most one million is returned as it is.
\<close>

definition limit_denominator :: "platform \<Rightarrow> rat \<Rightarrow> int \<times> int" where
  "limit_denominator P x =
     (if snd (quotient_of x) \<le> 1000000 then quotient_of x
      else limit_denominator_search P x)"

text \<open>Lines 336 to 343: the two values inserted into the \<^verbatim>\<open>-filter_complex\<close> argument.\<close>

definition settb_setpts :: "platform \<Rightarrow> number \<Rightarrow> number \<Rightarrow> error + (string \<times> string)" where
  "settb_setpts P rf tf =
     (if is_int rf \<and> is_int tf then Inr (''1/'' @ py_str P tf, py_str P tf)
      else
        (case truediv P rf tf of
           Inl e \<Rightarrow> Inl e
         | Inr q \<Rightarrow>
             (case limit_denominator P q of (sn, sd) \<Rightarrow>
              case limit_denominator P (value_of tf) of (pn, pd) \<Rightarrow>
                Inr (str_int sn @ ''/'' @ str_int sd,
                     ''('' @ str_int pn @ ''/'' @ str_int pd @ '')''))))"

subsection \<open>The operations\<close>

text \<open>Lines 346 to 368: the argument list.\<close>

definition command_line ::
  "platform \<Rightarrow> world \<Rightarrow> datetime \<Rightarrow> string \<Rightarrow> string \<Rightarrow> string list" where
  "command_line P w now settb setpts =
     (case box w of (b0, b1, b2, b3) \<Rightarrow>
      [''ffmpeg'',
       ''-v'', ''quiet'',
       ''-stats'',
       ''-f'', ''gdigrab'',
       ''-thread_queue_size'', ''1024'',
       ''-rtbufsize'', ''256M'',
       ''-framerate'', py_str P (record_fps w),
       ''-offset_x'', str_int (max b0 0),
       ''-offset_y'', str_int (max b1 0),
       ''-video_size'',
         str_int (min b2 (WINDOW_MAX_WIDTH P)) @ ''x'' @
         str_int (min b3 (WINDOW_MAX_HEIGHT P)),
       ''-show_region'', ''0'',
       ''-i'', ''desktop'',
       ''-filter_complex'', ''settb='' @ settb @ '',setpts=N/TB/'' @ setpts,
       ''-c:v'', ''h264_nvenc'',
       ''-r'', py_str P (target_fps w),
       ''-preset'', ''p4'',
       ''-tune'', ''hq'',
       ''-b:v'', str_int (bitrate w) @ ''k'',
       ''-movflags'', ''+faststart'',
       ''-y'',
       ''recordings/timelapse_'' @ strftime now @ ''.mkv''])"

text \<open>
  \<^verbatim>\<open>start_recording\<close>. \<open>now\<close> is what \<^verbatim>\<open>datetime.now()\<close> returns and
  \<open>spawned\<close> what \<^verbatim>\<open>Popen\<close> does: it raises, or it returns an object with a
  process id.
\<close>

definition start_recording ::
  "platform \<Rightarrow> datetime \<Rightarrow> error + int \<Rightarrow> world \<Rightarrow> error option \<times> world" where
  "start_recording P now spawned w =
     (if process w \<noteq> None then (None, w)
      else
        (case settb_setpts P (record_fps w) (target_fps w) of
           Inl e \<Rightarrow> (Some e, w)
         | Inr (settb, setpts) \<Rightarrow>
             (let c = command_line P w now settb setpts;
                  w1 = w\<lparr>cmd := Some c\<rparr>
              in case spawned of
                   Inl e \<Rightarrow> (Some e, w1\<lparr>trace := trace w1 @ [SpawnFailed c]\<rparr>)
                 | Inr p \<Rightarrow>
                     (None, w1\<lparr>process := Some \<lparr>pid = p\<rparr>, PID := p,
                                trace := trace w1 @ [Spawn c p]\<rparr>))))"

text \<open>
  \<^verbatim>\<open>stop_recording\<close>. \<open>sent\<close> is what \<^verbatim>\<open>send_signal\<close> does. The program
  never polls the child, so the \<^verbatim>\<open>Popen\<close> object never learns that the child has
  ended and \<^verbatim>\<open>send_signal\<close> always passes the signal on.
\<close>

definition stop_recording :: "outcome \<Rightarrow> world \<Rightarrow> error option \<times> world" where
  "stop_recording sent w =
     (case process w of
        None \<Rightarrow> (None, w)
      | Some h \<Rightarrow>
          (case sent of
             Raised e m \<Rightarrow>
               (Some e, w\<lparr>trace := trace w @ [Signal (pid h) CTRL_BREAK_EVENT sent]\<rparr>)
           | Returned \<Rightarrow>
               (None, w\<lparr>process := None, PID := 0,
                         trace := trace w @
                           [Signal (pid h) CTRL_BREAK_EVENT sent, Sleep 3, Recompose]\<rparr>)))"

text \<open>
  \<^verbatim>\<open>cancel_recording\<close>. \<^verbatim>\<open>self.cmd[-1]\<close> raises when the attribute is missing
  or the list is empty; \<^verbatim>\<open>unlink(True)\<close> removes the file if it is there.
\<close>

definition cancel_recording :: "outcome \<Rightarrow> world \<Rightarrow> error option \<times> world" where
  "cancel_recording sent w =
     (case process w of
        None \<Rightarrow> (None, w)
      | Some h \<Rightarrow>
          (case sent of
             Raised e m \<Rightarrow>
               (Some e, w\<lparr>trace := trace w @ [Signal (pid h) SIGTERM sent]\<rparr>)
           | Returned \<Rightarrow>
               (let w1 = w\<lparr>process := None, PID := 0,
                           trace := trace w @ [Signal (pid h) SIGTERM sent, Sleep 3, Recompose]\<rparr>
                in case cmd w1 of
                     None \<Rightarrow> (Some AttributeError, w1)
                   | Some c \<Rightarrow>
                       if c = [] then (Some IndexError, w1)
                       else (None, w1\<lparr>files := files w1 - {last c},
                                       trace := trace w1 @ [Unlink (last c)]\<rparr>))))"

text \<open>
  Lines 419 to 429: the handler for an exception \<open>e\<close> that left \<^verbatim>\<open>app.run()\<close>.
  \<open>k1\<close> and \<open>k2\<close> are what the two \<^verbatim>\<open>os.kill\<close> calls do.
\<close>

datatype exit = SysExit int | Reraise error

definition crash_handler :: "error \<Rightarrow> outcome \<Rightarrow> outcome \<Rightarrow> world \<Rightarrow> exit \<times> world" where
  "crash_handler e k1 k2 w =
     (if PID w \<noteq> 0 then
        (SysExit (PID w),
         w\<lparr>trace := trace w @
              [Signal (PID w) CTRL_BREAK_EVENT k1] @
              (case k1 of
                 Returned \<Rightarrow> []
               | Raised c m \<Rightarrow>
                   [Print (''Stopping ffmpeg with PID='' @ str_int (PID w) @
                           '' result in an error '' @ m)]) @
              [Sleep 5, Signal (PID w) SIGTERM k2]\<rparr>)
      else (Reraise e, w))"

subsection \<open>Runs of the program\<close>

text \<open>The class attributes as \<^verbatim>\<open>RecorderApp\<close> declares them, with \<open>F\<close> on disk.\<close>

definition initial_world :: "string set \<Rightarrow> world" where
  "initial_world F =
     \<lparr>box = (0, 0, 1, 1), hwid = 0, process = None, started = False,
      record_fps = PyInt 1, target_fps = PyInt 60, bitrate = 4000,
      cmd = None, PID = 0, files = F, trace = []\<rparr>"

text \<open>The operating system gives a child a process id other than 0.\<close>

definition spawn_ok :: "error + int \<Rightarrow> bool" where
  "spawn_ok spawned = (case spawned of Inl e \<Rightarrow> True | Inr p \<Rightarrow> p \<noteq> 0)"

text \<open>
  The states the program can be in: the three operations in any order and with any result
  of the calls they make; in between, the user interface may store any window, box, frame
  rates and bitrate, and the encoder or anything else may change the files on disk.
\<close>

inductive reachable :: "platform \<Rightarrow> world \<Rightarrow> bool" for P :: platform where
  initial: "reachable P (initial_world F)"
| start: "reachable P w \<Longrightarrow> spawn_ok spawned \<Longrightarrow>
          reachable P (snd (start_recording P now spawned w))"
| stop: "reachable P w \<Longrightarrow> reachable P (snd (stop_recording sent w))"
| cancel: "reachable P w \<Longrightarrow> reachable P (snd (cancel_recording sent w))"
| ui: "reachable P w \<Longrightarrow>
       reachable P (w\<lparr>box := b, hwid := i, started := s,
                       record_fps := rf, target_fps := tf, bitrate := br\<rparr>)"
| disk: "reachable P w \<Longrightarrow> reachable P (w\<lparr>files := F\<rparr>)"

text \<open>What an operation added to the trace.\<close>

definition new_events :: "world \<Rightarrow> world \<Rightarrow> event list" where
  "new_events w w' = drop (length (trace w)) (trace w')"

text \<open>
  The children that were spawned and have not yet been sent a shutdown signal that the
  operating system accepted, read off the trace.
\<close>

fun track :: "int list \<Rightarrow> event \<Rightarrow> int list" where
  "track ps (Spawn c p) = ps @ [p]"
| "track ps (Signal p s Returned) = remove1 p ps"
| "track ps e = ps"

definition outstanding :: "event list \<Rightarrow> int list" where
  "outstanding es = foldl track [] es"


text \<open>
  The invariant of the handle: \<^verbatim>\<open>PID\<close> is the process id of the handle, or 0 when
  there is none, and the handle's child is the only outstanding one.
\<close>

definition one_child :: "world \<Rightarrow> bool" where
  "one_child w =
     (PID w = (case process w of None \<Rightarrow> 0 | Some h \<Rightarrow> pid h) \<and>
      (PID w \<noteq> 0) = (process w \<noteq> None) \<and>
      outstanding (trace w) = (case process w of None \<Rightarrow> [] | Some h \<Rightarrow> [pid h]))"


text \<open>How often a signal was attempted in a list of events, whatever came of it.\<close>

fun is_signal :: "signal \<Rightarrow> event \<Rightarrow> bool" where
  "is_signal s (Signal p s' r) = (s' = s)"
| "is_signal s e = False"

definition attempts :: "signal \<Rightarrow> event list \<Rightarrow> nat" where
  "attempts s es = length (filter (is_signal s) es)"

text \<open>The events before the first deletion, and whether there is a deletion at all.\<close>

fun before_unlink :: "event list \<Rightarrow> event list" where
  "before_unlink [] = []"
| "before_unlink (Unlink f # es) = []"
| "before_unlink (e # es) = e # before_unlink es"

fun has_unlink :: "event list \<Rightarrow> bool" where
  "has_unlink [] = False"
| "has_unlink (Unlink f # es) = True"
| "has_unlink (e # es) = has_unlink es"

text \<open>
  An example platform, a screen of 1920 by 1080. The examples below stay on integers and
  exact quotients and never consult its three library functions.
\<close>

definition full_hd :: platform where
  "full_hd =
     \<lparr>WINDOW_MAX_WIDTH = 1920, WINDOW_MAX_HEIGHT = 1080,
      float_repr = (\<lambda>x. []),
      inexact_truediv = (\<lambda>a b. Inl OverflowError),
      limit_denominator_search = (\<lambda>x. (0, 1))\<rparr>"

definition noon :: datetime where
  "noon = \<lparr>year = 2024, month = 3, day = 9, hour = 12, minute = 0, second = 5\<rparr>"

text \<open>The initial state with an empty disk, after a start that spawned child 4242.\<close>

definition recording :: world where
  "recording = snd (start_recording full_hd noon (Inr 4242) (initial_world {}))"

text \<open>The command line that start builds, written out.\<close>

definition example_cmd :: "string list" where
  "example_cmd =
     [''ffmpeg'', ''-v'', ''quiet'', ''-stats'', ''-f'', ''gdigrab'',
      ''-thread_queue_size'', ''1024'', ''-rtbufsize'', ''256M'',
      ''-framerate'', ''1'', ''-offset_x'', ''0'', ''-offset_y'', ''0'',
      ''-video_size'', ''1x1'', ''-show_region'', ''0'', ''-i'', ''desktop'',
      ''-filter_complex'', ''settb=1/60,setpts=N/TB/60'', ''-c:v'', ''h264_nvenc'',
      ''-r'', ''60'', ''-preset'', ''p4'', ''-tune'', ''hq'', ''-b:v'', ''4000k'',
      ''-movflags'', ''+faststart'', ''-y'',
      ''recordings/timelapse_2024.03.09_12.00.05.mkv'']"

text \<open>The same state once the encoder has written its file, next to an unrelated one.\<close>

definition encoding :: world where
  "encoding = recording\<lparr>files := {''recordings/timelapse_2024.03.09_12.00.05.mkv'', ''notes.txt''}\<rparr>"

text \<open>
  A maximised window as \<^verbatim>\<open>GetWindowRect\<close> reports it, its border off the screen,
  and the initial state after the user has typed the frame rates 30 and 60.
\<close>

definition off_screen :: world where
  "off_screen = (initial_world {})\<lparr>box := (- 8, - 8, 1928, 1048)\<rparr>"


section \<open>Properties\<close>

subsection \<open>Auxiliary facts\<close>



lemma outstanding_append: "outstanding (es @ fs) = foldl track (outstanding es) fs"
  by (simp add: outstanding_def)




lemma one_child_initial: "one_child (initial_world F)"
  by (simp add: one_child_def initial_world_def outstanding_def)

lemma one_child_start:
  "one_child w \<Longrightarrow> spawn_ok spawned \<Longrightarrow> one_child (snd (start_recording P now spawned w))"
  by (auto simp: one_child_def start_recording_def spawn_ok_def Let_def outstanding_append
           split: sum.splits option.splits prod.splits)

lemma one_child_stop: "one_child w \<Longrightarrow> one_child (snd (stop_recording sent w))"
  by (auto simp: one_child_def stop_recording_def outstanding_append
           split: option.splits outcome.splits)

lemma one_child_cancel: "one_child w \<Longrightarrow> one_child (snd (cancel_recording sent w))"
  by (auto simp: one_child_def cancel_recording_def Let_def outstanding_append
           split: option.splits outcome.splits)

lemma reachable_one_child: "reachable P w \<Longrightarrow> one_child w"
proof (induction rule: reachable.induct)
  case (initial F)
  show ?case by (rule one_child_initial)
next
  case (start w spawned now)
  then show ?case by (simp add: one_child_start)
next
  case (stop w sent)
  then show ?case by (simp add: one_child_stop)
next
  case (cancel w sent)
  then show ?case by (simp add: one_child_cancel)
next
  case (ui w b i s rf tf br)
  then show ?case by (auto simp: one_child_def)
next
  case (disk w F)
  then show ?case by (auto simp: one_child_def)
qed





lemma new_events_append [simp]: "new_events w (w'\<lparr>trace := trace w @ es\<rparr>) = es"
  by (simp add: new_events_def)

lemma new_events_same [simp]: "new_events w w = []"
  by (simp add: new_events_def)

lemma example_cmd_last:
  "last example_cmd = ''recordings/timelapse_2024.03.09_12.00.05.mkv''"
  "example_cmd \<noteq> []"
  by (simp_all add: example_cmd_def)

lemma recording_eq:
  "recording =
     \<lparr>box = (0, 0, 1, 1), hwid = 0, process = Some \<lparr>pid = 4242\<rparr>, started = False,
      record_fps = PyInt 1, target_fps = PyInt 60, bitrate = 4000,
      cmd = Some example_cmd, PID = 4242, files = {},
      trace = [Spawn example_cmd 4242]\<rparr>"
  by (simp add: recording_def start_recording_def initial_world_def settb_setpts_def
        command_line_def full_hd_def noon_def strftime_def zero_pad_def str_int_def
        str_nat.simps Let_def example_cmd_def)

lemma reachable_recording: "reachable full_hd recording"
  unfolding recording_def
  by (rule reachable.start [OF reachable.initial]) (simp add: spawn_ok_def)


lemma recording_fields:
  "process recording = Some \<lparr>pid = 4242\<rparr>"
  "PID recording = 4242"
  "files recording = {}"
  "cmd recording = Some example_cmd"
  "trace recording = [Spawn example_cmd 4242]"
  by (simp_all add: recording_eq)

lemma encoding_fields:
  "process encoding = Some \<lparr>pid = 4242\<rparr>"
  "PID encoding = 4242"
  "files encoding = {''recordings/timelapse_2024.03.09_12.00.05.mkv'', ''notes.txt''}"
  "cmd encoding = Some example_cmd"
  "trace encoding = [Spawn example_cmd 4242]"
  by (simp_all add: encoding_def recording_fields)

lemma str_nat_digits: "set (str_nat n) \<subseteq> set ''0123456789''"
proof (induction n rule: str_nat.induct)
  case (1 n)
  have d: "\<And>k. k < 10 \<Longrightarrow> ''0123456789'' ! k \<in> set ''0123456789''"
    by (rule nth_mem) simp
  show ?case
  proof (cases "n < 10")
    case True
    then show ?thesis using d [of n] by (subst str_nat.simps) simp
  next
    case False
    have "n mod 10 < 10" by simp
    with False 1 d [of "n mod 10"] show ?thesis
      by (subst str_nat.simps) simp
  qed
qed

lemma str_int_nonneg_digits: "0 \<le> i \<Longrightarrow> set (str_int i) \<subseteq> set ''0123456789''"
  using str_nat_digits [of "nat i"] by (simp add: str_int_def)

lemma start_recording_cmd:
  assumes "process w = None"
    and "settb_setpts P (record_fps w) (target_fps w) = Inr (settb, setpts)"
  shows "cmd (snd (start_recording P now spawned w)) =
           Some (command_line P w now settb setpts)"
    and "new_events w (snd (start_recording P now spawned w)) =
           [case spawned of
              Inl e \<Rightarrow> SpawnFailed (command_line P w now settb setpts)
            | Inr p \<Rightarrow> Spawn (command_line P w now settb setpts) p]"
  using assms by (simp_all add: start_recording_def Let_def split: sum.splits)



lemma initial_settb_setpts:
  "settb_setpts P (record_fps (initial_world F)) (target_fps (initial_world F)) =
     Inr (''1/60'', ''60'')"
  by (simp add: initial_world_def settb_setpts_def str_int_def str_nat.simps)


lemma full_hd_screen: "WINDOW_MAX_WIDTH full_hd = 1920" "WINDOW_MAX_HEIGHT full_hd = 1080"
  by (simp_all add: full_hd_def)







subsection \<open>The claims\<close>

text \<open>
  Claim C8. Without a process handle, stop and cancel do nothing: they return at once,
  so no signal is sent, no file is deleted (cancel never reaches the deletion), and the
  handle, \<^verbatim>\<open>PID\<close>, the disk and the trace are as before.
\<close>

theorem no_child_noop:
  assumes "process w = None"
  shows "stop_recording sent w = (None, w) \<and> cancel_recording sent w = (None, w)"
  using assms by (simp add: stop_recording_def cancel_recording_def)

theorem no_child_noop_witness:
  "process (initial_world {}) = None
   \<and> stop_recording Returned (initial_world {}) = (None, initial_world {})
   \<and> cancel_recording Returned (initial_world {}) = (None, initial_world {})"
  using no_child_noop [of "initial_world {}" Returned]
  by (simp add: initial_world_def)

text \<open>
  Claim C1. With a process handle, stop sends \<^verbatim>\<open>CTRL_BREAK_EVENT\<close> to the child
  of that handle as its first effect; when \<^verbatim>\<open>send_signal\<close> returns it then waits
  and recomposes. Whatever \<^verbatim>\<open>send_signal\<close> does, stop deletes nothing and the
  files on disk, the encoder's output among them, are the ones that were there.
\<close>

theorem stop_recording_leaves_file:
  assumes "process w = Some h"
  shows "take 1 (new_events w (snd (stop_recording sent w))) =
           [Signal (pid h) CTRL_BREAK_EVENT sent]
         \<and> new_events w (snd (stop_recording Returned w)) =
           [Signal (pid h) CTRL_BREAK_EVENT Returned, Sleep 3, Recompose]
         \<and> \<not> has_unlink (new_events w (snd (stop_recording sent w)))
         \<and> files (snd (stop_recording sent w)) = files w"
  using assms by (simp add: stop_recording_def split: outcome.splits)

theorem stop_recording_leaves_file_witness:
  "process encoding = Some \<lparr>pid = 4242\<rparr>
   \<and> new_events encoding (snd (stop_recording Returned encoding)) =
       [Signal 4242 CTRL_BREAK_EVENT Returned, Sleep 3, Recompose]
   \<and> ''recordings/timelapse_2024.03.09_12.00.05.mkv''
       \<in> files (snd (stop_recording Returned encoding))"
  using stop_recording_leaves_file [of encoding "\<lparr>pid = 4242\<rparr>" Returned]
  by (simp add: encoding_fields new_events_def)



text \<open>
  Claim C3. In a reachable state with a process handle, start returns at once: nothing is
  spawned and the state is unchanged. Every reachable state has at most one outstanding
  child, the one of the handle, and \<^verbatim>\<open>PID\<close> is its process id, which is not 0
  exactly when there is a handle; start, stop and cancel keep it so.
\<close>

theorem at_most_one_child:
  assumes "reachable P w"
  shows "(process w \<noteq> None \<longrightarrow> start_recording P now spawned w = (None, w))
         \<and> one_child w
         \<and> length (outstanding (trace w)) \<le> 1
         \<and> (spawn_ok spawned \<longrightarrow> one_child (snd (start_recording P now spawned w)))
         \<and> one_child (snd (stop_recording sent w))
         \<and> one_child (snd (cancel_recording sent w))"
proof -
  have inv: "one_child w" by (rule reachable_one_child [OF assms])
  have "process w \<noteq> None \<longrightarrow> start_recording P now spawned w = (None, w)"
    by (simp add: start_recording_def)
  moreover have "length (outstanding (trace w)) \<le> 1"
    using inv by (simp add: one_child_def split: option.splits)
  ultimately show ?thesis
    using inv by (simp add: one_child_start one_child_stop one_child_cancel)
qed

theorem at_most_one_child_witness:
  "reachable full_hd recording \<and> process recording \<noteq> None
   \<and> start_recording full_hd noon (Inr 7) recording = (None, recording)
   \<and> PID recording = 4242 \<and> outstanding (trace recording) = [4242]
   \<and> one_child (snd (stop_recording Returned recording))
   \<and> outstanding (trace (snd (stop_recording Returned recording))) = []"
  using at_most_one_child [OF reachable_recording, of noon "Inr 7" Returned]
        reachable_recording
  by (simp add: recording_fields one_child_def stop_recording_def outstanding_def)

text \<open>
  Claim C5. When an exception leaves the app in a reachable state whose \<^verbatim>\<open>PID\<close>
  is not 0, that is the process id of the child of the handle; the handler sends it
  \<^verbatim>\<open>CTRL_BREAK_EVENT\<close> (printing the error if the call raises), sleeps five
  seconds, sends \<^verbatim>\<open>SIGTERM\<close>, and exits with the process id as status. When
  \<^verbatim>\<open>PID\<close> is 0 it does nothing and the exception is raised again.
\<close>

theorem crash_handler_shutdown:
  assumes "reachable P w"
  shows "(PID w \<noteq> 0 \<longrightarrow>
            (\<exists>h. process w = Some h \<and> pid h = PID w)
            \<and> fst (crash_handler e k1 k2 w) = SysExit (PID w)
            \<and> new_events w (snd (crash_handler e k1 k2 w)) =
                Signal (PID w) CTRL_BREAK_EVENT k1 #
                (case k1 of
                   Returned \<Rightarrow> []
                 | Raised c m \<Rightarrow>
                     [Print (''Stopping ffmpeg with PID='' @ str_int (PID w) @
                             '' result in an error '' @ m)]) @
                [Sleep 5, Signal (PID w) SIGTERM k2])
         \<and> (PID w = 0 \<longrightarrow> crash_handler e k1 k2 w = (Reraise e, w))"
proof -
  have "PID w \<noteq> 0 \<longrightarrow> (\<exists>h. process w = Some h \<and> pid h = PID w)"
    using reachable_one_child [OF assms] by (auto simp: one_child_def)
  then show ?thesis by (simp add: crash_handler_def)
qed

theorem crash_handler_shutdown_witness:
  "reachable full_hd recording \<and> PID recording = 4242
   \<and> fst (crash_handler ValueError (Raised OSError ''gone'') Returned recording) = SysExit 4242
   \<and> new_events recording
        (snd (crash_handler ValueError (Raised OSError ''gone'') Returned recording)) =
       [Signal 4242 CTRL_BREAK_EVENT (Raised OSError ''gone''),
        Print ''Stopping ffmpeg with PID=4242 result in an error gone'',
        Sleep 5, Signal 4242 SIGTERM Returned]
   \<and> reachable full_hd (initial_world {})
   \<and> crash_handler ValueError Returned Returned (initial_world {}) =
       (Reraise ValueError, initial_world {})"
  using crash_handler_shutdown
          [OF reachable_recording, of ValueError "Raised OSError ''gone''" Returned]
        crash_handler_shutdown
          [OF reachable.initial [of full_hd "{}"], of ValueError Returned Returned]
        reachable_recording reachable.initial [of full_hd "{}"]
  by (simp add: recording_fields initial_world_def str_int_def str_nat.simps new_events_def)

text \<open>
  Claim C6. With a process handle and a signal that was delivered, stop and cancel both
  sleep three seconds directly after the signal. Whenever cancel deletes a file, what it
  did before the deletion is the signal, the sleep of three seconds and the recompose, in
  this order.
\<close>

theorem teardown_fixed_delay:
  assumes "process w = Some h"
  shows "take 2 (new_events w (snd (stop_recording Returned w))) =
           [Signal (pid h) CTRL_BREAK_EVENT Returned, Sleep 3]
         \<and> take 2 (new_events w (snd (cancel_recording Returned w))) =
           [Signal (pid h) SIGTERM Returned, Sleep 3]
         \<and> (has_unlink (new_events w (snd (cancel_recording sent w))) \<longrightarrow>
              before_unlink (new_events w (snd (cancel_recording sent w))) =
                [Signal (pid h) SIGTERM Returned, Sleep 3, Recompose])"
  using assms
  by (simp add: stop_recording_def cancel_recording_def Let_def
           split: outcome.splits option.splits)

theorem teardown_fixed_delay_witness:
  "process encoding = Some \<lparr>pid = 4242\<rparr>
   \<and> take 2 (new_events encoding (snd (stop_recording Returned encoding))) =
       [Signal 4242 CTRL_BREAK_EVENT Returned, Sleep 3]
   \<and> has_unlink (new_events encoding (snd (cancel_recording Returned encoding)))
   \<and> before_unlink (new_events encoding (snd (cancel_recording Returned encoding))) =
       [Signal 4242 SIGTERM Returned, Sleep 3, Recompose]"
  using teardown_fixed_delay [of encoding "\<lparr>pid = 4242\<rparr>" Returned]
  by (simp add: encoding_fields example_cmd_last cancel_recording_def new_events_def Let_def)

text \<open>
  Claim C7. Stop, cancel and the crash handler attempt each signal at most once, whatever
  the calls do. When \<^verbatim>\<open>send_signal\<close> raises in stop or cancel, the attempt is the
  only effect and the exception leaves the operation. The crash handler attempts each of
  its two signals exactly once and exits with the process id, whether or not they raise.
\<close>

theorem teardown_no_retry:
  "attempts s (new_events w (snd (stop_recording sent w))) \<le> 1
   \<and> attempts s (new_events w (snd (cancel_recording sent w))) \<le> 1
   \<and> attempts s (new_events w (snd (crash_handler e k1 k2 w))) \<le> 1
   \<and> (process w = Some h \<longrightarrow>
        stop_recording (Raised c m) w =
          (Some c, w\<lparr>trace := trace w @ [Signal (pid h) CTRL_BREAK_EVENT (Raised c m)]\<rparr>)
        \<and> cancel_recording (Raised c m) w =
          (Some c, w\<lparr>trace := trace w @ [Signal (pid h) SIGTERM (Raised c m)]\<rparr>))
   \<and> (PID w \<noteq> 0 \<longrightarrow>
        fst (crash_handler e k1 k2 w) = SysExit (PID w)
        \<and> attempts CTRL_BREAK_EVENT (new_events w (snd (crash_handler e k1 k2 w))) = 1
        \<and> attempts SIGTERM (new_events w (snd (crash_handler e k1 k2 w))) = 1)"
  by (cases s)
     (auto simp: attempts_def stop_recording_def cancel_recording_def crash_handler_def Let_def
           split: outcome.splits option.splits)

theorem teardown_no_retry_witness:
  "process recording = Some \<lparr>pid = 4242\<rparr>
   \<and> new_events recording (snd (stop_recording (Raised OSError ''gone'') recording)) =
       [Signal 4242 CTRL_BREAK_EVENT (Raised OSError ''gone'')]
   \<and> new_events recording (snd (cancel_recording (Raised OSError ''gone'') recording)) =
       [Signal 4242 SIGTERM (Raised OSError ''gone'')]
   \<and> PID recording \<noteq> 0
   \<and> attempts CTRL_BREAK_EVENT
       (new_events recording
          (snd (crash_handler ValueError (Raised OSError ''gone'') (Raised OSError ''gone'')
                  recording))) = 1"
  using teardown_no_retry
          [of CTRL_BREAK_EVENT recording Returned ValueError "Raised OSError ''gone''"
              "Raised OSError ''gone''" "\<lparr>pid = 4242\<rparr>" OSError "''gone''"]
  by (simp add: recording_fields new_events_def)



text \<open>
  Claim C9. The value behind \<^verbatim>\<open>-offset_x\<close> is the decimal of
  \<open>max left 0\<close>, the one behind \<^verbatim>\<open>-offset_y\<close> of \<open>max top 0\<close>, neither
  with a minus sign, and the one behind \<^verbatim>\<open>-video_size\<close> is
  \<open>min right width\<close> and \<open>min bottom height\<close> joined by an x, neither above the
  screen's dimension.
\<close>

theorem capture_region_clamped:
  assumes "process w = None"
    and "settb_setpts P (record_fps w) (target_fps w) = Inr (settb, setpts)"
    and "box w = (b0, b1, b2, b3)"
  shows "\<exists>c. cmd (snd (start_recording P now spawned w)) = Some c
           \<and> c ! 12 = ''-offset_x'' \<and> c ! 13 = str_int (max b0 0)
           \<and> c ! 14 = ''-offset_y'' \<and> c ! 15 = str_int (max b1 0)
           \<and> c ! 16 = ''-video_size''
           \<and> c ! 17 = str_int (min b2 (WINDOW_MAX_WIDTH P)) @ ''x'' @
                      str_int (min b3 (WINDOW_MAX_HEIGHT P))
           \<and> 0 \<le> max b0 0 \<and> 0 \<le> max b1 0
           \<and> CHR ''-'' \<notin> set (c ! 13) \<and> CHR ''-'' \<notin> set (c ! 15)
           \<and> min b2 (WINDOW_MAX_WIDTH P) \<le> WINDOW_MAX_WIDTH P
           \<and> min b3 (WINDOW_MAX_HEIGHT P) \<le> WINDOW_MAX_HEIGHT P"
proof -
  let ?c = "command_line P w now settb setpts"
  have n: "?c ! 12 = ''-offset_x''" "?c ! 13 = str_int (max b0 0)"
    "?c ! 14 = ''-offset_y''" "?c ! 15 = str_int (max b1 0)"
    "?c ! 16 = ''-video_size''"
    "?c ! 17 = str_int (min b2 (WINDOW_MAX_WIDTH P)) @ ''x'' @
               str_int (min b3 (WINDOW_MAX_HEIGHT P))"
    using assms(3) by (simp_all add: command_line_def)
  have "CHR ''-'' \<notin> set (str_int (max b0 0))" "CHR ''-'' \<notin> set (str_int (max b1 0))"
    using str_int_nonneg_digits [of "max b0 0"] str_int_nonneg_digits [of "max b1 0"]
    by auto
  with n show ?thesis
    using start_recording_cmd(1) [OF assms(1,2), of now spawned]
    by (intro exI [of _ ?c]) simp
qed

theorem capture_region_clamped_witness:
  "process off_screen = None
   \<and> settb_setpts full_hd (record_fps off_screen) (target_fps off_screen) =
       Inr (''1/60'', ''60'')
   \<and> box off_screen = (- 8, - 8, 1928, 1048)
   \<and> take 6 (drop 12 (the (cmd (snd (start_recording full_hd noon (Inr 4242) off_screen))))) =
       [''-offset_x'', ''0'', ''-offset_y'', ''0'', ''-video_size'', ''1920x1048'']"
proof -
  have a: "process off_screen = None"
    and c: "box off_screen = (- 8, - 8, 1928, 1048)"
    by (simp_all add: off_screen_def initial_world_def)
  have b: "settb_setpts full_hd (record_fps off_screen) (target_fps off_screen) =
       Inr (''1/60'', ''60'')"
    using initial_settb_setpts [of full_hd "{}"] by (simp add: off_screen_def)
  have d: "take 6 (drop 12 (the (cmd (snd (start_recording full_hd noon (Inr 4242) off_screen))))) =
       [''-offset_x'', ''0'', ''-offset_y'', ''0'', ''-video_size'', ''1920x1048'']"
    using capture_region_clamped [OF a b c, of noon "Inr 4242"]
    by (simp add: start_recording_cmd(1) [OF a b] command_line_def c full_hd_screen
          str_int_def str_nat.simps)
  from a b c d show ?thesis by simp
qed



end
